theory Spec2Isabelle
  imports Complex_Main
begin

section \<open>Ray generator (nerfstudio/model_components/ray_generators.py)\<close>

text \<open>
  The module defines one class, \<open>RayGenerator\<close>, with a constructor and the method
  \<open>forward\<close>. Its collaborators (\<open>Cameras\<close>, \<open>CameraOptimizer\<close>, \<open>RayBundle\<close>, the
  tensor library) live in other modules; they appear here as parameters.
\<close>

subsection \<open>Data\<close>

text \<open>
  Exceptions. \<open>IndexError\<close> is what tensor indexing raises for an index outside
  \<open>[-size, size)\<close>. \<open>UnpackError\<close> is the failure of the tuple assignment
  \<open>ray_bundle, new_coords = ray_bundle_and_coords\<close> of line 67 when the right-hand side
  is not a pair. \<open>Raised e\<close> is any other exception, as a collaborator may raise it.
\<close>

datatype 'e py_error = IndexError | UnpackError | Raised 'e

text \<open>
  The tensor \<open>image_coords\<close> has shape \<open>(rows, cols, 2)\<close>: a shape and, for every position
  inside it, a pair of coordinates. The element type \<open>'a\<close> of floating-point tensors is a
  parameter; only its subtraction is used (line 68).
\<close>

record 'a coord_table =
  nrows :: nat
  ncols :: nat
  cell :: "nat \<Rightarrow> nat \<Rightarrow> 'a \<times> 'a"

text \<open>
  \<open>ray_indices\<close> has the declared shape \<open>(num_rays, 3)\<close> and integer entries: a list of
  triples (camera, row, col).
\<close>

type_synonym ray_index = "int \<times> int \<times> int"

text \<open>
  The declared return type of \<open>forward\<close> and of \<open>generate_rays\<close>:
  \<open>Union[RayBundle, Tuple[RayBundle, Float[Tensor, "num_rays 2"]]]\<close>. The ray bundle type
  \<open>'rb\<close> is opaque to the ray generator.
\<close>

datatype ('rb, 'a) rays_result = Bundle 'rb | BundleCoords 'rb "('a \<times> 'a) list"

text \<open>
  Collaborators are objects: their methods are functions that read and may change the
  collaborators' own state \<open>'h\<close>, and return a value or raise. The camera indices they
  are handed, \<open>c\<close> and \<open>c.unsqueeze(-1)\<close>, are views that share the storage of the
  caller's tensor, and a collaborator can write through them in place. So each of the two
  calls returns three things: the value or the exception, the collaborators' state, and
  the content of the index view as the call leaves it (the content it was handed, when
  the collaborator writes nothing). \<open>'tf\<close> is the type of the batch of correction
  transforms the pose optimizer returns.
\<close>

record ('a, 'tf, 'rb, 'e, 'h) Cameras =
  get_image_coords :: "'a \<Rightarrow> 'h \<Rightarrow> ('e py_error + 'a coord_table) \<times> 'h"
  generate_rays :: "int list list \<Rightarrow> ('a \<times> 'a) list \<Rightarrow> 'tf \<Rightarrow> bool \<Rightarrow> 'h
                      \<Rightarrow> ('e py_error + ('rb, 'a) rays_result) \<times> 'h \<times> int list list"

type_synonym ('tf, 'e, 'h) CameraOptimizer =
  "int list \<Rightarrow> 'h \<Rightarrow> ('e py_error + 'tf) \<times> 'h \<times> int list"

text \<open>The attributes of a \<open>RayGenerator\<close> instance, as \<open>__init__\<close> sets them (lines 40 to 43).\<close>

record ('a, 'tf, 'rb, 'e, 'h) RayGenerator =
  cameras :: "('a, 'tf, 'rb, 'e, 'h) Cameras"
  pixel_offset :: 'a
  pose_optimizer :: "('tf, 'e, 'h) CameraOptimizer"
  image_coords :: "'a coord_table"

text \<open>
  What a call of \<open>forward\<close> can reach and could change: the instance, the caller's index
  tensor, and the collaborators' state.
\<close>

record ('a, 'tf, 'rb, 'e, 'h) call_state =
  self :: "('a, 'tf, 'rb, 'e, 'h) RayGenerator"
  ray_indices :: "ray_index list"
  heap :: 'h

subsection \<open>Tensor indexing\<close>

text \<open>
  One index into a dimension of size \<open>n\<close>: an index in \<open>[0, n)\<close> is used as it is, one in
  \<open>[-n, 0)\<close> counts from the end, any other raises.
\<close>

definition wrap_index :: "nat \<Rightarrow> int \<Rightarrow> 'e py_error + nat" where
  "wrap_index n i =
     (if 0 \<le> i \<and> i < int n then Inr (nat i)
      else if - int n \<le> i \<and> i < 0 then Inr (nat (i + int n))
      else Inl IndexError)"

definition getitem_pair :: "'a coord_table \<Rightarrow> int \<times> int \<Rightarrow> 'e py_error + 'a \<times> 'a" where
  "getitem_pair t yx =
     (case wrap_index (nrows t) (fst yx) of
        Inl err \<Rightarrow> Inl err
      | Inr i \<Rightarrow>
          (case wrap_index (ncols t) (snd yx) of
             Inl err \<Rightarrow> Inl err
           | Inr j \<Rightarrow> Inr (cell t i j)))"

fun getitem_pairs :: "'a coord_table \<Rightarrow> (int \<times> int) list \<Rightarrow> 'e py_error + ('a \<times> 'a) list" where
  "getitem_pairs t [] = Inr []"
| "getitem_pairs t (yx # rest) =
     (case getitem_pair t yx of
        Inl err \<Rightarrow> Inl err
      | Inr v \<Rightarrow>
          (case getitem_pairs t rest of
             Inl err \<Rightarrow> Inl err
           | Inr vs \<Rightarrow> Inr (v # vs)))"

text \<open>
  \<open>t[y, x]\<close> with two index vectors of the same length (line 56): entry \<open>k\<close> of the
  result is \<open>t[y[k], x[k]]\<close>.
\<close>

definition getitem :: "'a coord_table \<Rightarrow> int list \<Rightarrow> int list \<Rightarrow> 'e py_error + ('a \<times> 'a) list" where
  "getitem t y x = getitem_pairs t (zip y x)"

text \<open>The column slices \<open>ray_indices[:, 0]\<close>, \<open>[:, 1]\<close>, \<open>[:, 2]\<close> and \<open>c.unsqueeze(-1)\<close>.\<close>

definition column0 :: "ray_index list \<Rightarrow> int list" where
  "column0 idx = map (\<lambda>(cam, row, col). cam) idx"

definition column1 :: "ray_index list \<Rightarrow> int list" where
  "column1 idx = map (\<lambda>(cam, row, col). row) idx"

definition column2 :: "ray_index list \<Rightarrow> int list" where
  "column2 idx = map (\<lambda>(cam, row, col). col) idx"

definition unsqueeze :: "int list \<Rightarrow> int list list" where
  "unsqueeze c = map (\<lambda>i. [i]) c"

text \<open>
  A write through the view \<open>c\<close>, or through \<open>c.unsqueeze(-1)\<close>, is a write into column 0
  of \<open>ray_indices\<close>: the rows and cols stay, the camera ids become what the view holds. A
  write in place keeps the shape of the view; the function is total all the same, and
  leaves a position for which it is given no content as it was.
\<close>

fun write_column0 :: "ray_index list \<Rightarrow> int list \<Rightarrow> ray_index list" where
  "write_column0 [] vs = []"
| "write_column0 (t # ts) [] = t # ts"
| "write_column0 ((cam, row, col) # ts) (v # vs) = (v, row, col) # write_column0 ts vs"

subsection \<open>Construction\<close>

text \<open>
  \<open>__init__(self, cameras, pose_optimizer, pixel_offset=0.5)\<close>, lines 38 to 43. The
  optional argument is \<open>None\<close> when the caller leaves it out. \<open>register_buffer\<close> stores
  the tensor under the attribute \<open>image_coords\<close>. A failure of \<open>get_image_coords\<close> leaves
  no instance.
\<close>

definition default_pixel_offset :: "'a::{inverse,numeral}" where
  "default_pixel_offset = 0.5"

definition init ::
  "('a::{inverse,numeral}, 'tf, 'rb, 'e, 'h) Cameras \<Rightarrow> ('tf, 'e, 'h) CameraOptimizer \<Rightarrow> 'a option \<Rightarrow> 'h
     \<Rightarrow> ('e py_error + ('a, 'tf, 'rb, 'e, 'h) RayGenerator) \<times> 'h" where
  "init cameras_arg pose_optimizer_arg pixel_offset_arg h =
     (let offset = (case pixel_offset_arg of None \<Rightarrow> default_pixel_offset | Some v \<Rightarrow> v) in
      case get_image_coords cameras_arg offset h of
        (Inl err, h') \<Rightarrow> (Inl err, h')
      | (Inr table, h') \<Rightarrow>
          (Inr \<lparr>cameras = cameras_arg, pixel_offset = offset,
                pose_optimizer = pose_optimizer_arg, image_coords = table\<rparr>, h'))"

subsection \<open>forward\<close>

text \<open>
  Lines 66 to 70, the value returned once \<open>generate_rays\<close> has returned: with
  \<open>resample\<close> the result is unpacked into two names and the scalar \<open>pixel_offset\<close> is
  subtracted from every element of \<open>new_coords\<close>; without, the result is returned as it is.
\<close>

definition forward_return ::
  "bool \<Rightarrow> 'a::minus \<Rightarrow> ('rb, 'a) rays_result \<Rightarrow> 'e py_error + ('rb, 'a) rays_result" where
  "forward_return resample offset ray_bundle_and_coords =
     (if resample then
        (case ray_bundle_and_coords of
           BundleCoords ray_bundle new_coords \<Rightarrow>
             Inr (BundleCoords ray_bundle (map (\<lambda>(u, v). (u - offset, v - offset)) new_coords))
         | Bundle ray_bundle \<Rightarrow> Inl UnpackError)
      else Inr ray_bundle_and_coords)"

text \<open>
  Lines 58 to 70, what \<open>forward\<close> does with the gathered coordinates: the call of the
  pose optimizer on the view \<open>c\<close>, the call of \<open>generate_rays\<close> on the view
  \<open>c.unsqueeze(-1)\<close>, which holds what the pose optimizer left in \<open>c\<close>, and the return.
  What a collaborator leaves in its view is in \<open>ray_indices\<close> from then on, also when
  the collaborator raises. No collaborator is handed the instance, its cache or its
  offset; the coordinates handed to \<open>generate_rays\<close> are the new tensor of the gather.
\<close>

definition forward_delegate ::
  "bool \<Rightarrow> ('a::minus, 'tf, 'rb, 'e, 'h) call_state \<Rightarrow> ('a \<times> 'a) list
     \<Rightarrow> ('e py_error + ('rb, 'a) rays_result) \<times> ('a, 'tf, 'rb, 'e, 'h) call_state" where
  "forward_delegate resample w coords =
     (case pose_optimizer (self w) (column0 (ray_indices w)) (heap w) of
        (r1, h1, c1) \<Rightarrow>
          (let w1 = w\<lparr>ray_indices := write_column0 (ray_indices w) c1, heap := h1\<rparr> in
           case r1 of
             Inl err \<Rightarrow> (Inl err, w1)
           | Inr camera_opt_to_camera \<Rightarrow>
               (case generate_rays (cameras (self w)) (unsqueeze (column0 (ray_indices w1)))
                       coords camera_opt_to_camera resample h1 of
                  (r2, h2, ci2) \<Rightarrow>
                    (let w2 = w1\<lparr>ray_indices := write_column0 (ray_indices w1) (concat ci2),
                                 heap := h2\<rparr> in
                     case r2 of
                       Inl err \<Rightarrow> (Inl err, w2)
                     | Inr ray_bundle_and_coords \<Rightarrow>
                         (forward_return resample (pixel_offset (self w)) ray_bundle_and_coords,
                          w2)))))"

text \<open>
  \<open>forward(self, ray_indices, resample=False)\<close>, lines 45 to 70. The call state is
  returned with the outcome, so that what the call changes is visible. An exception ends
  the call at the statement that raised it. The gather of line 56 reads the views \<open>y\<close>
  and \<open>x\<close> before any collaborator is called, and its result is a new tensor.
\<close>

definition forward ::
  "bool \<Rightarrow> ('a::minus, 'tf, 'rb, 'e, 'h) call_state
     \<Rightarrow> ('e py_error + ('rb, 'a) rays_result) \<times> ('a, 'tf, 'rb, 'e, 'h) call_state" where
  "forward resample w =
     (let y = column1 (ray_indices w);
          x = column2 (ray_indices w)
      in case getitem (image_coords (self w)) y x of
           Inl err \<Rightarrow> (Inl err, w)
         | Inr coords \<Rightarrow> forward_delegate resample w coords)"

subsection \<open>Collaborators, as the specification describes them\<close>

text \<open>
  Modelled from the spec: the pose optimizer (\<open>CameraOptimizer.forward\<close>, module
  \<open>nerfstudio.cameras.camera_optimizers\<close>, which is not part of the sources at hand). It
  maps a camera index to a correction transform, one per ray, and it is the collaborator
  that detects an invalid camera id and fails on it; a valid id is an index into the
  camera collection of \<open>num_cameras\<close> cameras. It writes nothing into the indices.
\<close>

definition spec_pose_optimizer :: "nat \<Rightarrow> (int \<Rightarrow> 'p) \<Rightarrow> ('p list, 'e, 'h) CameraOptimizer" where
  "spec_pose_optimizer num_cameras pose_of c h =
     (if list_all (\<lambda>i. 0 \<le> i \<and> i < int num_cameras) c
      then (Inr (map pose_of c), h, c) else (Inl IndexError, h, c))"

text \<open>
  Modelled from the spec: the ray-generation operation (\<open>Cameras.generate_rays\<close>, module
  \<open>nerfstudio.cameras.cameras\<close>, which is not part of the sources at hand). It returns a
  batch of rays aligned one-to-one with its argument batches: ray \<open>k\<close> is generated from
  row \<open>k\<close> of the camera indices, coordinate pair \<open>k\<close> and correction transform \<open>k\<close>. With
  \<open>resample\<close> it returns in addition one perturbed coordinate pair per ray. What one ray
  and its perturbed coordinates are is the parameter \<open>per_ray\<close>. It writes nothing into
  the indices.
\<close>

definition spec_generate_rays ::
  "(bool \<Rightarrow> int list \<Rightarrow> 'a \<times> 'a \<Rightarrow> 'p \<Rightarrow> 'ray \<times> ('a \<times> 'a))
     \<Rightarrow> int list list \<Rightarrow> ('a \<times> 'a) list \<Rightarrow> 'p list \<Rightarrow> bool \<Rightarrow> 'h
     \<Rightarrow> ('e py_error + ('ray list, 'a) rays_result) \<times> 'h \<times> int list list" where
  "spec_generate_rays per_ray camera_indices coords camera_opt_to_camera resample h =
     (let out = map (\<lambda>(ci, co, tf). per_ray resample ci co tf)
                    (zip camera_indices (zip coords camera_opt_to_camera))
      in (Inr (if resample then BundleCoords (map fst out) (map snd out)
               else Bundle (map fst out)), h, camera_indices))"

text \<open>
  Modelled from the spec: the camera collection, exposing a grid of per-pixel image
  coordinates for a given sub-pixel offset (the parameter \<open>grid\<close>) and the ray-generation
  operation.
\<close>

definition spec_cameras ::
  "('a \<Rightarrow> 'a coord_table) \<Rightarrow> (bool \<Rightarrow> int list \<Rightarrow> 'a \<times> 'a \<Rightarrow> 'p \<Rightarrow> 'ray \<times> ('a \<times> 'a))
     \<Rightarrow> ('a, 'p list, 'ray list, 'e, 'h) Cameras" where
  "spec_cameras grid per_ray =
     \<lparr>get_image_coords = (\<lambda>offset h. (Inr (grid offset), h)),
      generate_rays = spec_generate_rays per_ray\<rparr>"

text \<open>
  A valid index triple, in the specification's words: the camera id is an index into the
  camera collection, row and col are within the image bounds.
\<close>

definition valid_index :: "nat \<Rightarrow> 'a coord_table \<Rightarrow> ray_index \<Rightarrow> bool" where
  "valid_index num_cameras t = (\<lambda>(cam, row, col).
     0 \<le> cam \<and> cam < int num_cameras \<and>
     0 \<le> row \<and> row < int (nrows t) \<and> 0 \<le> col \<and> col < int (ncols t))"

subsection \<open>Names at definition time\<close>

text \<open>
  Executing the module binds the imported names (lines 18 to 23) and then executes the
  class statement. The module has no \<open>from __future__ import annotations\<close>, so annotations
  are expressions that the interpreter evaluates when it executes a definition. A function
  definition evaluates its defaults and then its annotations, parameter by parameter and
  the return annotation last; a subscription evaluates the
  subscripted name first. A name is looked up in the module's globals and then in the
  builtins; a name found in neither raises \<open>NameError\<close>.
\<close>

datatype name_error = NameError string

definition module_imports :: "string list" where
  "module_imports = [''Int'', ''Tensor'', ''nn'', ''CameraOptimizer'', ''Cameras'', ''RayBundle'']"

text \<open>The builtins the class statement mentions (\<open>None\<close> and \<open>False\<close> are keywords).\<close>

definition builtins :: "string list" where
  "builtins = [''float'', ''bool'']"

text \<open>
  The names loaded while the class statement runs, in order: the base class \<open>nn.Module\<close>,
  the two attribute annotations, the annotations of \<open>__init__\<close>, the annotations of
  \<open>forward\<close>.
\<close>

definition class_statement_names :: "string list" where
  "class_statement_names =
     [''nn'',
      ''Tensor'', ''float'',
      ''Cameras'', ''CameraOptimizer'', ''float'',
      ''Int'', ''Tensor'', ''bool'',
      ''Union'', ''RayBundle'', ''Tuple'', ''RayBundle'', ''Float'', ''Tensor'']"

fun load_names :: "string list \<Rightarrow> string list \<Rightarrow> name_error + unit" where
  "load_names scope [] = Inr ()"
| "load_names scope (n # ns) =
     (if n \<in> set scope then load_names scope ns else Inl (NameError n))"

definition define_class :: "name_error + unit" where
  "define_class = load_names (module_imports @ builtins) class_statement_names"

text \<open>The ray bundle of a result, whichever of the two shapes it has.\<close>

fun ray_bundle_of :: "('rb, 'a) rays_result \<Rightarrow> 'rb" where
  "ray_bundle_of (Bundle rb) = rb"
| "ray_bundle_of (BundleCoords rb new_coords) = rb"

subsection \<open>An example scene\<close>

text \<open>
  The example of the specification: offset 0.5, images of 4 rows and 8 columns, two
  cameras, the index (camera 0, row 3, col 7). A ray is the triple of its generation
  parameters; resampling moves a coordinate pair by a quarter of a pixel.
\<close>

definition example_grid :: "real \<Rightarrow> real coord_table" where
  "example_grid offset =
     \<lparr>nrows = 4, ncols = 8, cell = (\<lambda>i j. (real j + offset, real i + offset))\<rparr>"

definition example_per_ray ::
  "bool \<Rightarrow> int list \<Rightarrow> real \<times> real \<Rightarrow> int
     \<Rightarrow> (int list \<times> (real \<times> real) \<times> int) \<times> (real \<times> real)" where
  "example_per_ray resample ci co tf = ((ci, co, tf), (fst co + 1 / 4, snd co - 1 / 4))"

definition example_generator ::
  "(real, int list, (int list \<times> (real \<times> real) \<times> int) list, unit, unit) RayGenerator" where
  "example_generator =
     \<lparr>cameras = spec_cameras example_grid example_per_ray, pixel_offset = 0.5,
      pose_optimizer = spec_pose_optimizer 2 (\<lambda>cam. cam), image_coords = example_grid 0.5\<rparr>"


definition example_call ::
  "ray_index list
     \<Rightarrow> (real, int list, (int list \<times> (real \<times> real) \<times> int) list, unit, unit) call_state" where
  "example_call idx = \<lparr>self = example_generator, ray_indices = idx, heap = ()\<rparr>"

lemmas example_defs = example_call_def example_generator_def example_grid_def example_per_ray_def
  spec_cameras_def spec_pose_optimizer_def spec_generate_rays_def
  column0_def column1_def column2_def unsqueeze_def getitem_def getitem_pair_def wrap_index_def
  forward_def forward_delegate_def forward_return_def Let_def

section \<open>Properties of tensor indexing\<close>

lemma wrap_index_in_range:
  "0 \<le> i \<Longrightarrow> i < int n \<Longrightarrow> (wrap_index n i :: 'e py_error + nat) = Inr (nat i)"
  by (simp add: wrap_index_def)

lemma wrap_index_accepts:
  "- int n \<le> i \<Longrightarrow> i < int n \<Longrightarrow>
   (wrap_index n i :: 'e py_error + nat) = Inr (nat (if i < 0 then i + int n else i))"
  by (simp add: wrap_index_def)

lemma getitem_pairs_valid:
  "list_all (\<lambda>(row, col). 0 \<le> row \<and> row < int (nrows t) \<and> 0 \<le> col \<and> col < int (ncols t)) yxs \<Longrightarrow>
   (getitem_pairs t yxs :: 'e py_error + ('a \<times> 'a) list) =
     Inr (map (\<lambda>(row, col). cell t (nat row) (nat col)) yxs)"
  by (induction yxs) (auto simp: getitem_pair_def wrap_index_in_range)

lemma getitem_pairs_wrapped:
  "list_all (\<lambda>(row, col). - int (nrows t) \<le> row \<and> row < int (nrows t) \<and>
                           - int (ncols t) \<le> col \<and> col < int (ncols t)) yxs \<Longrightarrow>
   (getitem_pairs t yxs :: 'e py_error + ('a \<times> 'a) list) =
     Inr (map (\<lambda>(row, col). cell t (nat (if row < 0 then row + int (nrows t) else row))
                                   (nat (if col < 0 then col + int (ncols t) else col))) yxs)"
proof (induction yxs)
  case Nil
  show ?case by simp
next
  case (Cons yx rest)
  obtain row col where yx: "yx = (row, col)" by (cases yx)
  from Cons.prems yx have r: "- int (nrows t) \<le> row" "row < int (nrows t)"
    and c: "- int (ncols t) \<le> col" "col < int (ncols t)"
    and rest: "list_all (\<lambda>(row, col). - int (nrows t) \<le> row \<and> row < int (nrows t) \<and>
                           - int (ncols t) \<le> col \<and> col < int (ncols t)) rest"
    by simp_all
  have "(getitem_pair t yx :: 'e py_error + 'a \<times> 'a) =
          Inr (cell t (nat (if row < 0 then row + int (nrows t) else row))
                      (nat (if col < 0 then col + int (ncols t) else col)))"
    unfolding getitem_pair_def yx fst_conv snd_conv
    by (simp only: wrap_index_accepts [OF r] wrap_index_accepts [OF c] sum.case)
  with Cons.IH [OF rest] yx show ?case by simp
qed

lemma zip_columns: "zip (column1 idx) (column2 idx) = map (\<lambda>(cam, row, col). (row, col)) idx"
  by (induction idx) (auto simp: column1_def column2_def)

lemma getitem_valid:
  assumes "list_all (\<lambda>(cam, row, col). 0 \<le> row \<and> row < int (nrows t) \<and>
                                         0 \<le> col \<and> col < int (ncols t)) idx"
  shows "(getitem t (column1 idx) (column2 idx) :: 'e py_error + ('a \<times> 'a) list) =
           Inr (map (\<lambda>(cam, row, col). cell t (nat row) (nat col)) idx)"
proof -
  have "list_all (\<lambda>(row, col). 0 \<le> row \<and> row < int (nrows t) \<and> 0 \<le> col \<and> col < int (ncols t))
          (map (\<lambda>(cam, row, col). (row, col)) idx)"
    using assms by (induction idx) auto
  then show ?thesis
    by (simp add: getitem_def zip_columns getitem_pairs_valid comp_def case_prod_unfold)
qed

lemma getitem_wrapped:
  assumes "list_all (\<lambda>(cam, row, col). - int (nrows t) \<le> row \<and> row < int (nrows t) \<and>
                                         - int (ncols t) \<le> col \<and> col < int (ncols t)) idx"
  shows "(getitem t (column1 idx) (column2 idx) :: 'e py_error + ('a \<times> 'a) list) =
           Inr (map (\<lambda>(cam, row, col).
                       cell t (nat (if row < 0 then int (nrows t) + row else row))
                              (nat (if col < 0 then int (ncols t) + col else col))) idx)"
proof -
  have "list_all (\<lambda>(row, col). - int (nrows t) \<le> row \<and> row < int (nrows t) \<and>
                           - int (ncols t) \<le> col \<and> col < int (ncols t))
          (map (\<lambda>(cam, row, col). (row, col)) idx)"
    using assms by (induction idx) auto
  then show ?thesis
    by (simp add: getitem_def zip_columns getitem_pairs_wrapped comp_def case_prod_unfold
          add.commute)
qed

section \<open>Properties of views\<close>





lemma write_column0_same: "write_column0 idx (column0 idx) = idx"
  by (induction idx) (auto simp: column0_def)


section \<open>Properties of the collaborators of the specification\<close>

lemma zip3_maps:
  "map (\<lambda>(ci, co, tf). f ci co tf) (zip (map g idx) (zip (map h idx) (map k idx)))
     = map (\<lambda>t. f (g t) (h t) (k t)) idx"
  by (induction idx) auto

lemma valid_index_cameras:
  "list_all (valid_index n t) idx \<Longrightarrow> list_all (\<lambda>i. 0 \<le> i \<and> i < int n) (column0 idx)"
  by (induction idx) (auto simp: valid_index_def column0_def)

lemma valid_index_pixels:
  "list_all (valid_index n t) idx \<Longrightarrow>
   list_all (\<lambda>(cam, row, col). 0 \<le> row \<and> row < int (nrows t) \<and> 0 \<le> col \<and> col < int (ncols t)) idx"
  by (induction idx) (auto simp: valid_index_def)

lemma spec_generate_rays_bundle:
  "\<exists>res. (spec_generate_rays per_ray (unsqueeze (map g idx)) (map h idx) (map k idx) resample hp
            :: ('e py_error + ('ray list, 'a) rays_result) \<times> 'h \<times> int list list)
           = (Inr res, hp, unsqueeze (map g idx))
       \<and> ray_bundle_of res = map (\<lambda>t. fst (per_ray resample [g t] (h t) (k t))) idx"
  by (simp add: spec_generate_rays_def unsqueeze_def Let_def comp_def zip3_maps)

section \<open>The claims\<close>

text \<open>
  C1: for a batch of N valid index triples, the ray bundle that forward returns has
  exactly N entries, and entry k is generated from input triple k: from its camera id,
  from the cache entry at its (row, col) and from the correction transform of its
  camera. The ray generation is the collaborator as the specification describes it.
\<close>

theorem forward_bundle_aligned:
  fixes w :: "('a::minus, 'p list, 'ray list, 'e, 'h) call_state"
  assumes cams: "cameras (self w) = spec_cameras grid per_ray"
    and opt: "pose_optimizer (self w) = spec_pose_optimizer num_cameras pose_of"
    and valid: "list_all (valid_index num_cameras (image_coords (self w))) (ray_indices w)"
  shows "\<exists>res. fst (forward resample w) = Inr res
       \<and> length (ray_bundle_of res) = length (ray_indices w)
       \<and> ray_bundle_of res =
           map (\<lambda>(cam, row, col).
                  fst (per_ray resample [cam]
                         (cell (image_coords (self w)) (nat row) (nat col)) (pose_of cam)))
               (ray_indices w)"
proof -
  let ?idx = "ray_indices w"
  let ?t = "image_coords (self w)"
  let ?entry = "\<lambda>(cam, row, col). cell ?t (nat row) (nat col)"
  let ?cam = "\<lambda>(cam, row, col). cam"
  have g: "(getitem ?t (column1 ?idx) (column2 ?idx) :: 'e py_error + ('a \<times> 'a) list)
             = Inr (map ?entry ?idx)"
    by (rule getitem_valid [OF valid_index_pixels [OF valid]])
  have p: "pose_optimizer (self w) (column0 ?idx) (heap w)
             = (Inr (map pose_of (column0 ?idx)), heap w, column0 ?idx)"
    using valid_index_cameras [OF valid] by (simp add: opt spec_pose_optimizer_def)
  have c0: "column0 ?idx = map ?cam ?idx" by (simp add: column0_def)
  obtain res where
    r: "generate_rays (cameras (self w)) (unsqueeze (column0 ?idx)) (map ?entry ?idx)
          (map pose_of (column0 ?idx)) resample (heap w)
        = (Inr res, heap w, unsqueeze (column0 ?idx))"
    and b: "ray_bundle_of res
              = map (\<lambda>t. fst (per_ray resample [?cam t] (?entry t) (pose_of (?cam t)))) ?idx"
    using spec_generate_rays_bundle [of per_ray ?cam ?idx ?entry "\<lambda>t. pose_of (?cam t)"
            resample "heap w", where ?'e = 'e]
    by (auto simp: cams spec_cameras_def c0 comp_def)
  have "\<exists>res'. forward_return resample (pixel_offset (self w)) res
                  = (Inr res' :: 'e py_error + ('ray list, 'a) rays_result)
              \<and> ray_bundle_of res' = ray_bundle_of res"
  proof (cases resample)
    case False
    then show ?thesis by (simp add: forward_return_def)
  next
    case True
    with r have "\<exists>rb nc. res = BundleCoords rb nc"
      by (auto simp: cams spec_cameras_def spec_generate_rays_def Let_def)
    with True show ?thesis by (auto simp: forward_return_def)
  qed
  then obtain res' where
    fr: "forward_return resample (pixel_offset (self w)) res
           = (Inr res' :: 'e py_error + ('ray list, 'a) rays_result)"
    and rb: "ray_bundle_of res' = ray_bundle_of res" by blast
  have "fst (forward resample w) = Inr res'"
    by (simp add: forward_def forward_delegate_def Let_def g p r fr write_column0_same)
  moreover have "ray_bundle_of res' = map (\<lambda>(cam, row, col).
                  fst (per_ray resample [cam] (cell ?t (nat row) (nat col)) (pose_of cam))) ?idx"
    by (simp add: rb b case_prod_unfold)
  ultimately show ?thesis by simp
qed

text \<open>
  C1 on the example scene, with resampling: two valid triples give a bundle of two rays,
  the first from camera 1 and cache entry (0, 0), the second from camera 0 and cache
  entry (3, 7).
\<close>

theorem forward_bundle_aligned_witness:
  "list_all (valid_index 2 (image_coords (self (example_call [(1, 0, 0), (0, 3, 7)]))))
            (ray_indices (example_call [(1, 0, 0), (0, 3, 7)]))
   \<and> (\<exists>res. fst (forward True (example_call [(1, 0, 0), (0, 3, 7)])) = Inr res
          \<and> length (ray_bundle_of res) = 2
          \<and> ray_bundle_of res = [([1], (0.5, 0.5), 1), ([0], (7.5, 3.5), 0)])"
proof -
  let ?w = "example_call [(1, 0, 0), (0, 3, 7)]"
  have c: "cameras (self ?w) = spec_cameras example_grid example_per_ray"
    by (simp add: example_call_def example_generator_def)
  have p: "pose_optimizer (self ?w) = spec_pose_optimizer 2 (\<lambda>cam. cam)"
    by (simp add: example_call_def example_generator_def)
  have v: "list_all (valid_index 2 (image_coords (self ?w))) (ray_indices ?w)"
    by (simp add: example_call_def example_generator_def example_grid_def valid_index_def)
  from forward_bundle_aligned [OF c p v, of True] obtain res where
    r: "fst (forward True ?w) = Inr res"
    and l: "length (ray_bundle_of res) = length (ray_indices ?w)"
    and b: "ray_bundle_of res =
              map (\<lambda>(cam, row, col).
                     fst (example_per_ray True [cam]
                            (cell (image_coords (self ?w)) (nat row) (nat col)) cam))
                  (ray_indices ?w)"
    by blast
  have "length (ray_bundle_of res) = 2"
    using l by (simp add: example_call_def)
  moreover have "ray_bundle_of res = [([1], (0.5, 0.5), 1), ([0], (7.5, 3.5), 0)]"
    using b by (simp add: example_call_def example_generator_def example_grid_def example_per_ray_def)
  ultimately show ?thesis using r v by blast
qed

text \<open>
  C2: when every row and col of the batch is within the bounds of the cache, the
  coordinate pairs that forward gathers are the cache entries at (row, col), in the order
  of the batch, and these are the coordinates that forward hands to generate_rays: the
  call of forward is the call of the pose optimizer followed by the call of generate_rays
  on the camera column, these cache entries, the transforms and the resample flag.
\<close>

theorem forward_gathers_cache_entries:
  fixes w :: "('a::minus, 'tf, 'rb, 'e, 'h) call_state"
  assumes "list_all (\<lambda>(cam, row, col). 0 \<le> row \<and> row < int (nrows (image_coords (self w))) \<and>
                                         0 \<le> col \<and> col < int (ncols (image_coords (self w))))
             (ray_indices w)"
  shows "(getitem (image_coords (self w)) (column1 (ray_indices w)) (column2 (ray_indices w))
            :: 'e py_error + ('a \<times> 'a) list) =
           Inr (map (\<lambda>(cam, row, col). cell (image_coords (self w)) (nat row) (nat col))
                    (ray_indices w))
       \<and> forward resample w =
           (case pose_optimizer (self w) (column0 (ray_indices w)) (heap w) of
              (Inl err, h1, c1) \<Rightarrow>
                (Inl err, w\<lparr>ray_indices := write_column0 (ray_indices w) c1, heap := h1\<rparr>)
            | (Inr camera_opt_to_camera, h1, c1) \<Rightarrow>
                (case generate_rays (cameras (self w))
                        (unsqueeze (column0 (write_column0 (ray_indices w) c1)))
                        (map (\<lambda>(cam, row, col). cell (image_coords (self w)) (nat row) (nat col))
                             (ray_indices w))
                        camera_opt_to_camera resample h1 of
                   (Inl err, h2, ci2) \<Rightarrow>
                     (Inl err,
                      w\<lparr>ray_indices := write_column0 (write_column0 (ray_indices w) c1) (concat ci2),
                        heap := h2\<rparr>)
                 | (Inr r, h2, ci2) \<Rightarrow>
                     (forward_return resample (pixel_offset (self w)) r,
                      w\<lparr>ray_indices := write_column0 (write_column0 (ray_indices w) c1) (concat ci2),
                        heap := h2\<rparr>)))"
  using getitem_valid [OF assms, where ?'e = 'e]
  by (simp add: forward_def forward_delegate_def Let_def split: prod.splits sum.splits)

text \<open>
  C2 on the example of the specification: the index (camera 0, row 3, col 7) looks up
  the cache entry at (3, 7), and the one ray generated has that coordinate pair among
  its generation parameters.
\<close>

theorem forward_gathers_cache_entries_witness:
  "(getitem (image_coords (self (example_call [(0, 3, 7)]))) (column1 [(0, 3, 7)]) (column2 [(0, 3, 7)])
      :: unit py_error + (real \<times> real) list) = Inr [(7.5, 3.5)]
   \<and> cell (image_coords (self (example_call [(0, 3, 7)]))) 3 7 = (7.5, 3.5)
   \<and> fst (forward False (example_call [(0, 3, 7)])) = Inr (Bundle [([0], (7.5, 3.5), 0)])"
proof -
  have h: "list_all (\<lambda>(cam, row, col).
               0 \<le> row \<and> row < int (nrows (image_coords (self (example_call [(0, 3, 7)])))) \<and>
               0 \<le> col \<and> col < int (ncols (image_coords (self (example_call [(0, 3, 7)])))))
             (ray_indices (example_call [(0, 3, 7)]))"
    by (simp add: example_call_def example_generator_def example_grid_def)
  show ?thesis
    using forward_gathers_cache_entries [OF h, of False]
    by (simp add: example_call_def example_generator_def example_grid_def example_per_ray_def
          spec_cameras_def spec_pose_optimizer_def spec_generate_rays_def
          column0_def column1_def column2_def unsqueeze_def forward_return_def)
qed

text \<open>
  C3: in a call of forward with resample true in which the gather and the pose optimizer
  succeed and generate_rays returns a ray bundle with resampled coordinates, forward
  returns a pair: that ray bundle, and a coordinate batch with as many rows as the
  resampled one, each row being the resampled row minus the configured pixel offset in both
  components.
\<close>

theorem forward_resample_recenters:
  fixes w :: "('a::minus, 'tf, 'rb, 'e, 'h) call_state"
  assumes "(getitem (image_coords (self w)) (column1 (ray_indices w)) (column2 (ray_indices w))
              :: 'e py_error + ('a \<times> 'a) list) = Inr coords"
    and "pose_optimizer (self w) (column0 (ray_indices w)) (heap w)
           = (Inr camera_opt_to_camera, h1, c1)"
    and "generate_rays (cameras (self w)) (unsqueeze (column0 (write_column0 (ray_indices w) c1)))
           coords camera_opt_to_camera True h1
           = (Inr (BundleCoords ray_bundle new_coords), h2, ci2)"
  shows "\<exists>adjusted.
           fst (forward True w) = Inr (BundleCoords ray_bundle adjusted)
         \<and> length adjusted = length new_coords
         \<and> list_all2 (\<lambda>adj new. adj = (fst new - pixel_offset (self w),
                                        snd new - pixel_offset (self w)))
              adjusted new_coords"
proof -
  let ?adj = "map (\<lambda>(u, v). (u - pixel_offset (self w), v - pixel_offset (self w))) new_coords"
  have "fst (forward True w) = Inr (BundleCoords ray_bundle ?adj)"
    using assms by (simp add: forward_def forward_delegate_def Let_def forward_return_def)
  moreover have "list_all2 (\<lambda>adj new. adj = (fst new - pixel_offset (self w),
                                               snd new - pixel_offset (self w)))
              ?adj new_coords"
    by (simp add: list_all2_map1 list_all2_same case_prod_unfold)
  ultimately show ?thesis by auto
qed

text \<open>
  C3 on the example scene: the cache entry (7.5, 3.5) is resampled to (7.75, 3.25), and
  forward returns (7.25, 2.75) with the ray bundle.
\<close>

theorem forward_resample_recenters_witness:
  "fst (forward True (example_call [(0, 3, 7)]))
     = Inr (BundleCoords [([0], (7.5, 3.5), 0)] [(7.25, 2.75)])"
proof -
  let ?w = "example_call [(0, 3, 7)]"
  have h1: "(getitem (image_coords (self ?w)) (column1 (ray_indices ?w)) (column2 (ray_indices ?w))
               :: unit py_error + (real \<times> real) list) = Inr [(7.5, 3.5)]"
    by (simp add: example_defs)
  have h2: "pose_optimizer (self ?w) (column0 (ray_indices ?w)) (heap ?w) = (Inr [0], (), [0])"
    by (simp add: example_defs)
  have h3: "generate_rays (cameras (self ?w))
              (unsqueeze (column0 (write_column0 (ray_indices ?w) [0])))
              [(7.5, 3.5)] [0] True ()
            = (Inr (BundleCoords [([0], (7.5, 3.5), 0)] [(7.75, 3.25)]), (), [[0]])"
    by (simp add: example_defs)
  show ?thesis
    using forward_resample_recenters [OF h1 h2 h3]
    by (auto simp: example_call_def example_generator_def list_all2_Cons2)
qed

text \<open>
  C4: in a call of forward with resample false in which the gather and the pose
  optimizer succeed, the outcome of forward is the outcome of generate_rays, unchanged;
  when generate_rays returns a ray bundle alone, forward returns that ray bundle alone,
  with no coordinate component.
\<close>

theorem forward_no_resample_passes_through:
  fixes w :: "('a::minus, 'tf, 'rb, 'e, 'h) call_state"
  assumes "(getitem (image_coords (self w)) (column1 (ray_indices w)) (column2 (ray_indices w))
              :: 'e py_error + ('a \<times> 'a) list) = Inr coords"
    and "pose_optimizer (self w) (column0 (ray_indices w)) (heap w)
           = (Inr camera_opt_to_camera, h1, c1)"
    and "generate_rays (cameras (self w)) (unsqueeze (column0 (write_column0 (ray_indices w) c1)))
           coords camera_opt_to_camera False h1 = (r, h2, ci2)"
  shows "forward False w =
           (r, w\<lparr>ray_indices := write_column0 (write_column0 (ray_indices w) c1) (concat ci2),
                 heap := h2\<rparr>)
       \<and> (r = Inr (Bundle ray_bundle) \<longrightarrow> fst (forward False w) = Inr (Bundle ray_bundle))"
  using assms
  by (auto simp: forward_def forward_delegate_def Let_def forward_return_def split: sum.splits)

text \<open>C4 on the example scene: two rays, returned as generate_rays built them.\<close>

theorem forward_no_resample_passes_through_witness:
  "fst (forward False (example_call [(1, 0, 0), (0, 3, 7)]))
     = Inr (Bundle [([1], (0.5, 0.5), 1), ([0], (7.5, 3.5), 0)])"
proof -
  let ?w = "example_call [(1, 0, 0), (0, 3, 7)]"
  let ?rays = "[([1], (0.5, 0.5), 1), ([0], (7.5, 3.5), 0)] :: (int list \<times> (real \<times> real) \<times> int) list"
  have h1: "(getitem (image_coords (self ?w)) (column1 (ray_indices ?w)) (column2 (ray_indices ?w))
               :: unit py_error + (real \<times> real) list) = Inr [(0.5, 0.5), (7.5, 3.5)]"
    by (simp add: example_defs)
  have h2: "pose_optimizer (self ?w) (column0 (ray_indices ?w)) (heap ?w) = (Inr [1, 0], (), [1, 0])"
    by (simp add: example_defs)
  have h3: "generate_rays (cameras (self ?w))
              (unsqueeze (column0 (write_column0 (ray_indices ?w) [1, 0])))
              [(0.5, 0.5), (7.5, 3.5)] [1, 0] False () = (Inr (Bundle ?rays), (), [[1], [0]])"
    by (simp add: example_defs)
  show ?thesis
    using forward_no_resample_passes_through [OF h1 h2 h3, of ?rays] by simp
qed

text \<open>
  C5: construction with a camera collection, a pose optimizer and an optional offset
  (0.5 when it is left out) stores the two collaborators and the offset, and stores as
  image-coordinate cache the table that the camera collection's get_image_coords returns
  for that offset: the cache is determined by the offset and the camera collection, and
  another offset gives the cache of that offset.
\<close>

theorem init_stores_image_coords:
  fixes cams :: "('a::{inverse,numeral}, 'tf, 'rb, 'e, 'h) Cameras"
  assumes "offset = (case pixel_offset_arg of None \<Rightarrow> 0.5 | Some v \<Rightarrow> v)"
    and "get_image_coords cams offset h = (Inr table, h')"
  shows "init cams po pixel_offset_arg h =
           (Inr \<lparr>cameras = cams, pixel_offset = offset, pose_optimizer = po, image_coords = table\<rparr>,
            h')"
  using assms unfolding init_def default_pixel_offset_def Let_def by simp

text \<open>
  C5 on the example scene: without an offset the cache is the grid of offset 0.5, with
  offset 0 it is the grid of offset 0, and the two differ at (3, 7).
\<close>

theorem init_stores_image_coords_witness:
  "init (spec_cameras example_grid example_per_ray) (spec_pose_optimizer 2 (\<lambda>cam. cam)) None ()
     = (Inr example_generator, ())
   \<and> init (spec_cameras example_grid example_per_ray) (spec_pose_optimizer 2 (\<lambda>cam. cam)) (Some 0) ()
     = (Inr (example_generator\<lparr>pixel_offset := 0, image_coords := example_grid 0\<rparr>), ())
   \<and> cell (example_grid 0.5) 3 7 = (7.5, 3.5) \<and> cell (example_grid 0) 3 7 = (7, 3)"
proof -
  have h1: "(0.5::real) = (case (None :: real option) of None \<Rightarrow> 0.5 | Some v \<Rightarrow> v)" by simp
  have g1: "get_image_coords (spec_cameras example_grid example_per_ray) (0.5::real) ()
              = (Inr (example_grid 0.5), ())"
    by (simp add: spec_cameras_def)
  have h2: "(0::real) = (case Some 0 of None \<Rightarrow> 0.5 | Some v \<Rightarrow> v)" by simp
  have g2: "get_image_coords (spec_cameras example_grid example_per_ray) (0::real) ()
              = (Inr (example_grid 0), ())"
    by (simp add: spec_cameras_def)
  show ?thesis
    using init_stores_image_coords [OF h1 g1, of "spec_pose_optimizer 2 (\<lambda>cam. cam)"]
          init_stores_image_coords [OF h2 g2, of "spec_pose_optimizer 2 (\<lambda>cam. cam)"]
    by (simp add: example_generator_def example_grid_def)
qed

text \<open>
  C6: forward checks neither camera ids nor rows and cols itself. With a camera
  collection whose generate_rays returns a pair whenever resample is true, forward fails
  with an error exactly when the gather fails with that error, or the gather succeeds and
  the pose optimizer fails with that error, or both succeed and generate_rays fails with
  that error: no failure originates in forward, and every failure of the gather or of a
  collaborator reaches the caller unchanged.
\<close>

theorem forward_relays_failures:
  fixes w :: "('a::minus, 'tf, 'rb, 'e, 'h) call_state"
  assumes contract:
    "\<And>ci co tf h rb. fst (generate_rays (cameras (self w)) ci co tf True h) \<noteq> Inr (Bundle rb)"
  shows "fst (forward resample w) = Inl err \<longleftrightarrow>
           (getitem (image_coords (self w)) (column1 (ray_indices w)) (column2 (ray_indices w)) = Inl err
          \<or> (\<exists>coords. (getitem (image_coords (self w)) (column1 (ray_indices w)) (column2 (ray_indices w))
                         :: 'e py_error + ('a \<times> 'a) list) = Inr coords
              \<and> (fst (pose_optimizer (self w) (column0 (ray_indices w)) (heap w)) = Inl err
                 \<or> (\<exists>tf h1 c1. pose_optimizer (self w) (column0 (ray_indices w)) (heap w)
                                  = (Inr tf, h1, c1)
                      \<and> fst (generate_rays (cameras (self w))
                                (unsqueeze (column0 (write_column0 (ray_indices w) c1)))
                                coords tf resample h1) = Inl err))))"
proof (cases "getitem (image_coords (self w)) (column1 (ray_indices w)) (column2 (ray_indices w))
                :: 'e py_error + ('a \<times> 'a) list")
  case (Inl e)
  then show ?thesis by (simp add: forward_def Let_def)
next
  case (Inr coords)
  obtain r1 h1 c1 where p: "pose_optimizer (self w) (column0 (ray_indices w)) (heap w) = (r1, h1, c1)"
    by (cases "pose_optimizer (self w) (column0 (ray_indices w)) (heap w)") auto
  show ?thesis
  proof (cases r1)
    case (Inl e)
    with Inr p show ?thesis by (simp add: forward_def forward_delegate_def Let_def)
  next
    case tf: (Inr tf)
    obtain r2 h2 ci2 where
      g: "generate_rays (cameras (self w)) (unsqueeze (column0 (write_column0 (ray_indices w) c1)))
            coords tf resample h1 = (r2, h2, ci2)"
      by (cases "generate_rays (cameras (self w))
                   (unsqueeze (column0 (write_column0 (ray_indices w) c1))) coords tf resample h1") auto
    have fw: "fst (forward resample w)
                = (case r2 of Inl e \<Rightarrow> Inl e
                   | Inr res \<Rightarrow> forward_return resample (pixel_offset (self w)) res)"
      using Inr p tf g
      by (simp add: forward_def forward_delegate_def Let_def split: sum.splits)
    have ok: "forward_return resample (pixel_offset (self w)) res \<noteq> Inl err" if "r2 = Inr res" for res
    proof (cases resample)
      case False
      then show ?thesis by (simp add: forward_return_def)
    next
      case True
      from contract [of "unsqueeze (column0 (write_column0 (ray_indices w) c1))" coords tf h1]
        g that True
      have "\<And>rb. res \<noteq> Bundle rb" by auto
      with True show ?thesis by (cases res) (auto simp: forward_return_def)
    qed
    from fw ok Inr p tf g show ?thesis
      by (cases r2) auto
  qed
qed

text \<open>
  C6 on the example scene: row 4 is outside the 4 rows of the cache and the gather's index
  error is the outcome of forward; camera 5 is not one of the two cameras and the pose
  optimizer's error is the outcome of forward.
\<close>

theorem forward_relays_failures_witness:
  "fst (forward False (example_call [(0, 4, 0)])) = Inl IndexError
   \<and> fst (forward True (example_call [(5, 0, 0)])) = Inl IndexError"
proof -
  have contract: "\<And>idx ci co tf h rb.
      fst (generate_rays (cameras (self (example_call idx))) ci co tf True h) \<noteq> Inr (Bundle rb)"
    by (simp add: example_call_def example_generator_def spec_cameras_def spec_generate_rays_def Let_def)
  let ?w = "example_call [(0, 4, 0)]"
  let ?v = "example_call [(5, 0, 0)]"
  have g: "(getitem (image_coords (self ?w)) (column1 (ray_indices ?w)) (column2 (ray_indices ?w))
              :: unit py_error + (real \<times> real) list) = Inl IndexError"
    by (simp add: example_defs)
  have g': "(getitem (image_coords (self ?v)) (column1 (ray_indices ?v)) (column2 (ray_indices ?v))
              :: unit py_error + (real \<times> real) list) = Inr [(0.5, 0.5)]"
    by (simp add: example_defs)
  have p: "fst (pose_optimizer (self ?v) (column0 (ray_indices ?v)) (heap ?v)) = Inl IndexError"
    by (simp add: example_defs)
  show ?thesis
    using forward_relays_failures [OF contract [of "[(0, 4, 0)]"],
            where resample = False and err = IndexError]
          forward_relays_failures [OF contract [of "[(5, 0, 0)]"],
            where resample = True and err = IndexError] g g' p
    by blast
qed



text \<open>
  C8: every name the class statement loads is bound by the module's imports or is a
  builtin, so that defining the class succeeds. The module does not meet this: the return
  annotation of forward loads Union, Tuple and Float, none of which the module imports,
  and executing the class statement raises a name error at Union, the first of them.
\<close>

theorem class_definition_raises_name_error:
  "define_class = Inl (NameError ''Union'')
   \<and> ''Union'' \<notin> set (module_imports @ builtins)
   \<and> ''Tuple'' \<notin> set (module_imports @ builtins)
   \<and> ''Float'' \<notin> set (module_imports @ builtins)"
  by (simp add: define_class_def module_imports_def builtins_def class_statement_names_def)

text \<open>
  C9, as amended: in a batch whose every row is in [-rows, rows) and whose every col is
  in [-cols, cols), a triple with a negative row or a negative col does not make the
  gather of forward fail. Forward goes on to the pose optimizer and to generate_rays, and
  the coordinate pair it hands over for each triple is the cache entry at the position in
  which a negative row is replaced by rows + row, a negative col by cols + col, and a
  non-negative index is kept as it is.
\<close>

theorem forward_accepts_negative_indices:
  fixes w :: "('a::minus, 'tf, 'rb, 'e, 'h) call_state"
  assumes "list_all (\<lambda>(cam, row, col).
               - int (nrows (image_coords (self w))) \<le> row \<and> row < int (nrows (image_coords (self w))) \<and>
               - int (ncols (image_coords (self w))) \<le> col \<and> col < int (ncols (image_coords (self w))))
             (ray_indices w)"
  shows "(getitem (image_coords (self w)) (column1 (ray_indices w)) (column2 (ray_indices w))
            :: 'e py_error + ('a \<times> 'a) list) =
           Inr (map (\<lambda>(cam, row, col).
                       cell (image_coords (self w))
                         (nat (if row < 0 then int (nrows (image_coords (self w))) + row else row))
                         (nat (if col < 0 then int (ncols (image_coords (self w))) + col else col)))
                    (ray_indices w))
       \<and> forward resample w =
           (case pose_optimizer (self w) (column0 (ray_indices w)) (heap w) of
              (Inl err, h1, c1) \<Rightarrow>
                (Inl err, w\<lparr>ray_indices := write_column0 (ray_indices w) c1, heap := h1\<rparr>)
            | (Inr camera_opt_to_camera, h1, c1) \<Rightarrow>
                (case generate_rays (cameras (self w))
                        (unsqueeze (column0 (write_column0 (ray_indices w) c1)))
                        (map (\<lambda>(cam, row, col).
                           cell (image_coords (self w))
                             (nat (if row < 0 then int (nrows (image_coords (self w))) + row else row))
                             (nat (if col < 0 then int (ncols (image_coords (self w))) + col else col)))
                             (ray_indices w))
                        camera_opt_to_camera resample h1 of
                   (Inl err, h2, ci2) \<Rightarrow>
                     (Inl err,
                      w\<lparr>ray_indices := write_column0 (write_column0 (ray_indices w) c1) (concat ci2),
                        heap := h2\<rparr>)
                 | (Inr r, h2, ci2) \<Rightarrow>
                     (forward_return resample (pixel_offset (self w)) r,
                      w\<lparr>ray_indices := write_column0 (write_column0 (ray_indices w) c1) (concat ci2),
                        heap := h2\<rparr>)))"
  using getitem_wrapped [OF assms, where ?'e = 'e]
  by (simp add: forward_def forward_delegate_def Let_def split: prod.splits sum.splits)

text \<open>
  The amended C9 on the example scene (a cache of 4 rows and 8 columns): row -1 is row 3,
  col -8 is col 0, row -4 is row 0 and col -1 is col 7, and forward returns the three
  rays generated from these cache entries.
\<close>

theorem forward_accepts_negative_indices_witness:
  "fst (forward False (example_call [(0, -1, 7), (0, 3, -8), (1, -4, -1)]))
     = Inr (Bundle [([0], (7.5, 3.5), 0), ([0], (0.5, 3.5), 0), ([1], (7.5, 0.5), 1)])"
proof -
  let ?w = "example_call [(0, -1, 7), (0, 3, -8), (1, -4, -1)]"
  have h: "list_all (\<lambda>(cam, row, col).
               - int (nrows (image_coords (self ?w))) \<le> row \<and> row < int (nrows (image_coords (self ?w))) \<and>
               - int (ncols (image_coords (self ?w))) \<le> col \<and> col < int (ncols (image_coords (self ?w))))
             (ray_indices ?w)"
    by (simp add: example_call_def example_generator_def example_grid_def)
  show ?thesis
    using forward_accepts_negative_indices [OF h, of False]
    by (simp add: example_call_def example_generator_def example_grid_def example_per_ray_def
          spec_cameras_def spec_pose_optimizer_def spec_generate_rays_def
          column0_def unsqueeze_def forward_return_def)
qed

text \<open>
  C9 as it was stated fails. It asks of a triple only that its row be in [-rows, -1] or
  its col be in [-cols, -1], and names (rows + row, cols + col) as the position read. On
  the example scene the triple (0, -1, 3) has its row in [-4, -1]; forward accepts it and
  generates the ray from the cache entry at (3, 3): the row is wrapped, the col is kept.
  The position (rows + row, cols + col) is (3, 11), which is no position of a cache of 8
  columns, and the table holds another pair there. The triple (0, -1, 8) has its row in
  [-4, -1] as well, and the gather fails on it.
\<close>

theorem forward_negative_row_counterexample:
  "- int (nrows (image_coords (self (example_call [(0, -1, 3)])))) \<le> (-1::int) \<and> (-1::int) \<le> -1
   \<and> fst (forward False (example_call [(0, -1, 3)]))
       = Inr (Bundle [([0], cell (image_coords (self (example_call [(0, -1, 3)]))) 3 3, 0)])
   \<and> \<not> nat (int (ncols (image_coords (self (example_call [(0, -1, 3)])))) + 3)
         < ncols (image_coords (self (example_call [(0, -1, 3)])))
   \<and> cell (image_coords (self (example_call [(0, -1, 3)]))) 3 3
       \<noteq> cell (image_coords (self (example_call [(0, -1, 3)])))
            (nat (int (nrows (image_coords (self (example_call [(0, -1, 3)])))) + (-1)))
            (nat (int (ncols (image_coords (self (example_call [(0, -1, 3)])))) + 3))
   \<and> fst (forward False (example_call [(0, -1, 8)])) = Inl IndexError"
  by (simp add: example_defs)

text \<open>
  C10: the gather of forward reads one cache, the table that get_image_coords returned
  at construction, whatever the camera. In a call on an instance as construction built
  it, with a batch whose rows and cols the gather accepts, two triples with the same row
  and col and any two camera ids are handed to the collaborators with the same
  coordinate pair: the entry of that one table for (row, col).
\<close>

theorem forward_gathers_from_one_cache:
  fixes w :: "('a::{minus,inverse,numeral}, 'tf, 'rb, 'e, 'h) call_state"
  assumes built: "init cams po pixel_offset_arg h0 = (Inr (self w), h0')"
    and range: "list_all (\<lambda>(cam, row, col).
               - int (nrows (image_coords (self w))) \<le> row \<and> row < int (nrows (image_coords (self w))) \<and>
               - int (ncols (image_coords (self w))) \<le> col \<and> col < int (ncols (image_coords (self w))))
             (ray_indices w)"
    and k1: "k1 < length (ray_indices w)" "ray_indices w ! k1 = (cam1, row, col)"
    and k2: "k2 < length (ray_indices w)" "ray_indices w ! k2 = (cam2, row, col)"
  shows "\<exists>table coords.
           fst (get_image_coords cams (case pixel_offset_arg of None \<Rightarrow> 0.5 | Some v \<Rightarrow> v) h0)
             = Inr table
         \<and> length coords = length (ray_indices w)
         \<and> coords ! k1 = cell table (nat (if row < 0 then int (nrows table) + row else row))
                                     (nat (if col < 0 then int (ncols table) + col else col))
         \<and> coords ! k2 = coords ! k1
         \<and> forward resample w =
           (case pose_optimizer (self w) (column0 (ray_indices w)) (heap w) of
              (Inl err, h1, c1) \<Rightarrow>
                (Inl err, w\<lparr>ray_indices := write_column0 (ray_indices w) c1, heap := h1\<rparr>)
            | (Inr camera_opt_to_camera, h1, c1) \<Rightarrow>
                (case generate_rays (cameras (self w))
                        (unsqueeze (column0 (write_column0 (ray_indices w) c1)))
                        coords
                        camera_opt_to_camera resample h1 of
                   (Inl err, h2, ci2) \<Rightarrow>
                     (Inl err,
                      w\<lparr>ray_indices := write_column0 (write_column0 (ray_indices w) c1) (concat ci2),
                        heap := h2\<rparr>)
                 | (Inr r, h2, ci2) \<Rightarrow>
                     (forward_return resample (pixel_offset (self w)) r,
                      w\<lparr>ray_indices := write_column0 (write_column0 (ray_indices w) c1) (concat ci2),
                        heap := h2\<rparr>)))"
proof -
  let ?offset = "case pixel_offset_arg of None \<Rightarrow> 0.5 | Some v \<Rightarrow> v"
  let ?t = "image_coords (self w)"
  let ?entry = "\<lambda>(cam, row, col).
                  cell ?t (nat (if row < 0 then int (nrows ?t) + row else row))
                          (nat (if col < 0 then int (ncols ?t) + col else col))"
  obtain r h1 where g: "get_image_coords cams ?offset h0 = (r, h1)"
    by (cases "get_image_coords cams ?offset h0") auto
  from built g have "\<exists>b. r = Inr b \<and> self w = \<lparr>cameras = cams, pixel_offset = ?offset,
                                            pose_optimizer = po, image_coords = b\<rparr>"
    unfolding init_def default_pixel_offset_def Let_def
    by (cases r) (auto split: prod.splits)
  then obtain b where rb: "r = Inr b"
    and sw: "self w = \<lparr>cameras = cams, pixel_offset = ?offset,
                       pose_optimizer = po, image_coords = b\<rparr>"
    by blast
  have "image_coords (self w) = b" by (simp add: sw)
  with rb have t: "r = Inr ?t" by simp
  have f: "forward resample w =
           (case pose_optimizer (self w) (column0 (ray_indices w)) (heap w) of
              (Inl err, h1, c1) \<Rightarrow>
                (Inl err, w\<lparr>ray_indices := write_column0 (ray_indices w) c1, heap := h1\<rparr>)
            | (Inr camera_opt_to_camera, h1, c1) \<Rightarrow>
                (case generate_rays (cameras (self w))
                        (unsqueeze (column0 (write_column0 (ray_indices w) c1)))
                        (map ?entry (ray_indices w))
                        camera_opt_to_camera resample h1 of
                   (Inl err, h2, ci2) \<Rightarrow>
                     (Inl err,
                      w\<lparr>ray_indices := write_column0 (write_column0 (ray_indices w) c1) (concat ci2),
                        heap := h2\<rparr>)
                 | (Inr r, h2, ci2) \<Rightarrow>
                     (forward_return resample (pixel_offset (self w)) r,
                      w\<lparr>ray_indices := write_column0 (write_column0 (ray_indices w) c1) (concat ci2),
                        heap := h2\<rparr>)))"
    using getitem_wrapped [OF range, where ?'e = 'e]
    by (simp add: forward_def forward_delegate_def Let_def split: prod.splits sum.splits)
  have e1: "map ?entry (ray_indices w) ! k1 = ?entry (cam1, row, col)"
    using k1 by simp
  have e2: "map ?entry (ray_indices w) ! k2 = ?entry (cam2, row, col)"
    using k2 by simp
  from g t f e1 e2 show ?thesis
    by (intro exI [of _ ?t] exI [of _ "map ?entry (ray_indices w)"]) simp
qed

text \<open>
  C10 on the example scene, built by the constructor: cameras 0 and 1, both at row 3 and
  col 7, are both handed over with the cache entry (7.5, 3.5).
\<close>

theorem forward_gathers_from_one_cache_witness:
  "init (spec_cameras example_grid example_per_ray) (spec_pose_optimizer 2 (\<lambda>cam. cam)) None ()
     = (Inr (self (example_call [(0, 3, 7), (1, 3, 7)])), ())
   \<and> fst (forward False (example_call [(0, 3, 7), (1, 3, 7)]))
       = Inr (Bundle [([0], (7.5, 3.5), 0), ([1], (7.5, 3.5), 1)])
   \<and> (\<exists>coords. length coords = 2 \<and> coords ! 0 = (7.5, 3.5) \<and> coords ! 1 = coords ! 0
              \<and> fst (forward False (example_call [(0, 3, 7), (1, 3, 7)]))
                  = Inr (Bundle [([0], coords ! 0, 0), ([1], coords ! 1, 1)]))"
proof -
  let ?w = "example_call [(0, 3, 7), (1, 3, 7)]"
  have b: "init (spec_cameras example_grid example_per_ray) (spec_pose_optimizer 2 (\<lambda>cam. cam)) None ()
             = (Inr (self ?w), ())"
    by (simp add: init_def default_pixel_offset_def Let_def spec_cameras_def
          example_call_def example_generator_def)
  have r: "list_all (\<lambda>(cam, row, col).
               - int (nrows (image_coords (self ?w))) \<le> row \<and> row < int (nrows (image_coords (self ?w))) \<and>
               - int (ncols (image_coords (self ?w))) \<le> col \<and> col < int (ncols (image_coords (self ?w))))
             (ray_indices ?w)"
    by (simp add: example_call_def example_generator_def example_grid_def)
  have k1: "0 < length (ray_indices ?w)" "ray_indices ?w ! 0 = (0, 3, 7)"
    by (simp_all add: example_call_def)
  have k2: "1 < length (ray_indices ?w)" "ray_indices ?w ! 1 = (1, 3, 7)"
    by (simp_all add: example_call_def)
  have v: "fst (forward False ?w) = Inr (Bundle [([0], (7.5, 3.5), 0), ([1], (7.5, 3.5), 1)])"
    by (simp add: example_defs)
  from forward_gathers_from_one_cache [OF b r k1 k2, of False] obtain coords where
    l: "length coords = length (ray_indices ?w)"
    and c1: "coords ! 0 = cell (example_grid 0.5) 3 7" and c2: "coords ! 1 = coords ! 0"
    by (auto simp: spec_cameras_def)
  from l have l2: "length coords = 2" by (simp add: example_call_def)
  from c1 have c3: "coords ! 0 = (7.5, 3.5)" by (simp add: example_grid_def)
  from v c2 c3 have "fst (forward False ?w) = Inr (Bundle [([0], coords ! 0, 0), ([1], coords ! 1, 1)])"
    by simp
  with b v l2 c3 c2 show ?thesis by blast
qed

end
